theory Spec2Isabelle
  imports Main "HOL-Library.AList"
begin

section \<open>LDAP authentication: the bind, search and re-bind sequence of ldapClient\<close>

text \<open>
  The development embeds \<^verbatim>\<open>authenticateWithLdap\<close> and its helpers
  (\<^verbatim>\<open>escapeLdapFilter\<close>, \<^verbatim>\<open>extractStringAttribute\<close>,
  \<^verbatim>\<open>extractStringArrayAttribute\<close>, \<^verbatim>\<open>extractAllAttributes\<close>) and the
  \<^verbatim>\<open>catch\<close> branch of \<^verbatim>\<open>handleCredentialAuth\<close>.

  JavaScript strings are modelled as \<^typ>\<open>string\<close>: one \<^typ>\<open>char\<close> per code unit,
  which covers every character the escaping and the placeholder look at.
\<close>

subsection \<open>Strings: hexadecimal rendering, padding, prefix test\<close>

abbreviation backslash :: char where "backslash \<equiv> CHR 0x5C"
abbreviation quote :: char where "quote \<equiv> CHR 0x27"
abbreviation dquote :: char where "dquote \<equiv> CHR 0x22"
abbreviation backtick :: char where "backtick \<equiv> CHR 0x60"
abbreviation nul :: char where "nul \<equiv> CHR 0x00"
abbreviation dollar :: char where "dollar \<equiv> CHR ''$''"

text \<open>\<^verbatim>\<open>Number.prototype.toString(16)\<close>: lower-case digits, no leading zero.\<close>

definition hexDigit :: "nat \<Rightarrow> char" where
  "hexDigit n = ''0123456789abcdef'' ! (n mod 16)"

function toString16 :: "nat \<Rightarrow> string" where
  "toString16 n = (if n < 16 then [hexDigit n] else toString16 (n div 16) @ [hexDigit (n mod 16)])"
  by pat_completeness auto
termination
  by (relation "measure (\<lambda>n. n)") auto

declare toString16.simps [simp del]

text \<open>\<^verbatim>\<open>String.prototype.padStart(n, c)\<close> with a one-character filler.\<close>

definition padStart :: "nat \<Rightarrow> char \<Rightarrow> string \<Rightarrow> string" where
  "padStart n c s = replicate (n - length s) c @ s"

text \<open>\<^verbatim>\<open>String.prototype.startsWith\<close>.\<close>

definition startsWith :: "string \<Rightarrow> string \<Rightarrow> bool" where
  "startsWith s p = (take (length p) s = p)"

subsection \<open>escapeLdapFilter\<close>

text \<open>
  The character class of the source, \<^verbatim>\<open>/[\\*()"\0/]/g\<close>: backslash, asterisk, both
  parentheses, double quote, NUL and slash.
\<close>

definition filterSpecial :: "char \<Rightarrow> bool" where
  "filterSpecial c = (c \<in> {backslash, CHR ''*'', CHR ''('', CHR '')'', dquote, nul, CHR ''/''})"

text \<open>The replacer callback: a backslash and \<^verbatim>\<open>charCodeAt(0).toString(16).padStart(2, '0')\<close>.\<close>

definition escapeChar :: "char \<Rightarrow> string" where
  "escapeChar c = backslash # padStart 2 (CHR ''0'') (toString16 (of_char c))"

text \<open>A global replace of one-character matches rewrites the string character by character.\<close>

definition escapeLdapFilter :: "string \<Rightarrow> string" where
  "escapeLdapFilter input = concat (map (\<lambda>c. if filterSpecial c then escapeChar c else [c]) input)"

subsection \<open>Substituting into the filter template\<close>

text \<open>
  \<^verbatim>\<open>config.searchFilter.replace(/\{\{username\}\}/g, escapeLdapFilter(username))\<close> passes a
  \<^emph>\<open>string\<close> as the replacement, so \<^verbatim>\<open>String.prototype.replace\<close> expands the
  replacement patterns in it (ECMAScript GetSubstitution). The regular expression has no
  capture group, so the patterns that expand are \<^verbatim>\<open>$$\<close>, \<^verbatim>\<open>$&\<close>,
  \<^verbatim>\<open>$`\<close> and \<^verbatim>\<open>$'\<close>; a dollar before anything else stays a dollar.
  The arguments are the matched text, the subject before the match, the subject after the
  match, and the replacement.
\<close>

fun getSubstitution :: "string \<Rightarrow> string \<Rightarrow> string \<Rightarrow> string \<Rightarrow> string" where
  "getSubstitution matched pre post [] = []"
| "getSubstitution matched pre post [c] = [c]"
| "getSubstitution matched pre post (c # c' # cs) =
     (if c = dollar then
        (if c' = dollar then dollar # getSubstitution matched pre post cs
         else if c' = CHR ''&'' then matched @ getSubstitution matched pre post cs
         else if c' = backtick then pre @ getSubstitution matched pre post cs
         else if c' = quote then post @ getSubstitution matched pre post cs
         else dollar # getSubstitution matched pre post (c' # cs))
      else c # getSubstitution matched pre post (c' # cs))"

abbreviation placeholder :: string where "placeholder \<equiv> ''{{username}}''"

text \<open>
  The global replace scans the subject from left to right for the literal placeholder;
  \<open>pre\<close> is the part of the subject already passed, so that \<^verbatim>\<open>$`\<close> and
  \<^verbatim>\<open>$'\<close> see the original subject around each match.
\<close>

fun replacePlaceholder :: "string \<Rightarrow> string \<Rightarrow> string \<Rightarrow> string" where
  "replacePlaceholder repl pre [] = []"
| "replacePlaceholder repl pre (c # cs) =
     (if startsWith (c # cs) placeholder
      then getSubstitution placeholder pre (drop (length placeholder) (c # cs)) repl
             @ replacePlaceholder repl (pre @ placeholder) (drop (length placeholder) (c # cs))
      else c # replacePlaceholder repl (pre @ [c]) cs)"

definition buildFilter :: "string \<Rightarrow> string \<Rightarrow> string" where
  "buildFilter searchFilter username = replacePlaceholder (escapeLdapFilter username) [] searchFilter"

subsection \<open>Directory entries and attribute extraction\<close>

text \<open>
  A JavaScript value as the extraction helpers see it: a string, an array, or anything
  else (\<^verbatim>\<open>undefined\<close>, a \<^verbatim>\<open>Buffer\<close>, a number, an object).
\<close>

datatype jsval = JString string | JArray "jsval list" | JOther

text \<open>
  A search entry of the client library: the \<^verbatim>\<open>dn\<close> property, always a string, and
  the attributes the directory returned, as the object's own properties in order.
  \<^verbatim>\<open>entry[attribute]\<close> reads either; a missing property reads as \<^verbatim>\<open>undefined\<close>
  (and a property inherited from the object prototype as something that is neither a string
  nor an array), which the helpers treat alike.
\<close>

datatype entry = Entry (entry_dn: string) (entry_attrs: "(string \<times> jsval) list")

definition entry_get :: "entry \<Rightarrow> string \<Rightarrow> jsval" where
  "entry_get e attribute =
     (if attribute = ''dn'' then JString (entry_dn e)
      else case map_of (entry_attrs e) attribute of None \<Rightarrow> JOther | Some v \<Rightarrow> v)"

text \<open>\<^verbatim>\<open>value.filter((v): v is string => typeof v === 'string')\<close>\<close>

fun filterStrings :: "jsval list \<Rightarrow> string list" where
  "filterStrings [] = []"
| "filterStrings (JString s # vs) = s # filterStrings vs"
| "filterStrings (v # vs) = filterStrings vs"

definition extractStringAttribute :: "entry \<Rightarrow> string \<Rightarrow> string option" where
  "extractStringAttribute e attribute =
     (case entry_get e attribute of
        JString s \<Rightarrow> Some s
      | JArray (JString s # vs) \<Rightarrow> Some s
      | _ \<Rightarrow> None)"

definition extractStringArrayAttribute :: "entry \<Rightarrow> string \<Rightarrow> string list option" where
  "extractStringArrayAttribute e attribute =
     (case entry_get e attribute of
        JArray vs \<Rightarrow> Some (filterStrings vs)
      | JString s \<Rightarrow> Some [s]
      | JOther \<Rightarrow> None)"

text \<open>A value of the returned attribute record: \<^verbatim>\<open>string | string[]\<close>.\<close>

datatype attrValue = AString string | AStrings "string list"

text \<open>
  The body of the \<^verbatim>\<open>for\<close> loop of \<^verbatim>\<open>extractAllAttributes\<close>; the result object
  is an association list, \<^verbatim>\<open>result[attr] = v\<close> is \<^const>\<open>AList.update\<close>.
\<close>

definition storeAttribute :: "entry \<Rightarrow> (string \<times> attrValue) list \<Rightarrow> string \<Rightarrow> (string \<times> attrValue) list" where
  "storeAttribute e result attr =
     (case entry_get e attr of
        JString s \<Rightarrow> AList.update attr (AString s) result
      | JArray vs \<Rightarrow> AList.update attr (AStrings (filterStrings vs)) result
      | JOther \<Rightarrow> result)"

definition extractAllAttributes :: "entry \<Rightarrow> string list \<Rightarrow> (string \<times> attrValue) list" where
  "extractAllAttributes e attrs = foldl (storeAttribute e) [] attrs"

subsection \<open>Configuration, result, errors\<close>

record ldapClientConfig =
  url :: string
  bindDN :: "string option"
  bindCredentials :: "string option"
  searchBase :: string
  usernameAttribute :: string
  searchFilter :: string
  userAttributes :: "string list"
  tls_rejectUnauthorized :: bool

record ldapUserInfo =
  dn :: string
  uid :: string
  displayName :: "string option"
  email :: "string option"
  memberOf :: "string list option"
  attributes :: "(string \<times> attrValue) list"

text \<open>
  A thrown JavaScript error: its \<^verbatim>\<open>name\<close> and its \<^verbatim>\<open>message\<close>.
  \<^verbatim>\<open>new Error(m)\<close> has the name \<^verbatim>\<open>Error\<close>; the client library throws errors
  of its own classes, or (as the mock of the test suite does) plain ones.
\<close>

datatype js_error = JsError (err_name: string) (err_message: string)

definition newError :: "string \<Rightarrow> js_error" where
  "newError m = JsError ''Error'' m"

text \<open>Truthiness of an optional string: \<^verbatim>\<open>undefined\<close> and the empty string are falsy.\<close>

fun truthy :: "string option \<Rightarrow> bool" where
  "truthy None = False"
| "truthy (Some s) = (s \<noteq> [])"

subsection \<open>The directory as an environment\<close>

text \<open>
  The two client objects of one call: \<^verbatim>\<open>client\<close>, used for the service bind and the
  search, and \<^verbatim>\<open>userClient\<close>, used for the re-bind.
\<close>

datatype conn = Client | UserClient

datatype clientOptions = ClientOptions (opt_url: string) (opt_tlsOptions: "bool option")

datatype searchOptions =
  SearchOptions (so_filter: string) (so_attributes: "string list") (so_scope: string)

text \<open>
  Everything the call does to the outside, in order, each request with the reply it got:
  \<^verbatim>\<open>None\<close> for a resolved promise, an error for a rejected one.
\<close>

datatype event =
    NewClient conn clientOptions
  | Bind conn string string "js_error option"
  | Search conn string searchOptions "js_error + entry list"
  | Unbind conn "js_error option"
  | LogInfo string
  | LogWarn string

text \<open>
  The directory server behind the client library: it answers each request, and its answer
  may depend on everything that happened before in the call.
\<close>

record directory =
  bind_reply :: "event list \<Rightarrow> conn \<Rightarrow> string \<Rightarrow> string \<Rightarrow> js_error option"
  search_reply :: "event list \<Rightarrow> conn \<Rightarrow> string \<Rightarrow> searchOptions \<Rightarrow> js_error + entry list"
  unbind_reply :: "event list \<Rightarrow> conn \<Rightarrow> js_error option"

subsection \<open>authenticateWithLdap\<close>

definition baseClientOptions :: "ldapClientConfig \<Rightarrow> clientOptions" where
  "baseClientOptions config =
     ClientOptions (url config)
       (if startsWith (url config) ''ldaps://'' then Some (tls_rejectUnauthorized config) else None)"

definition notFoundError :: "string \<Rightarrow> js_error" where
  "notFoundError username = newError (''User '' @ [quote] @ username @ [quote] @ '' not found in LDAP directory'')"

definition invalidCredentialsError :: "string \<Rightarrow> js_error" where
  "invalidCredentialsError username = newError (''Invalid credentials for user '' @ [quote] @ username @ [quote])"

text \<open>Step 4 of the source: the record built from the matched entry.\<close>

definition buildUserInfo :: "string \<Rightarrow> ldapClientConfig \<Rightarrow> entry \<Rightarrow> ldapUserInfo" where
  "buildUserInfo username config userEntry =
     \<lparr> dn = entry_dn userEntry,
       uid = (case extractStringAttribute userEntry (usernameAttribute config) of
                Some u \<Rightarrow> u | None \<Rightarrow> username),
       displayName = extractStringAttribute userEntry ''displayName'',
       email = extractStringAttribute userEntry ''mail'',
       memberOf = extractStringArrayAttribute userEntry ''memberOf'',
       attributes = extractAllAttributes userEntry (userAttributes config) \<rparr>"

text \<open>
  The inner \<^verbatim>\<open>try / catch / finally\<close>: bind \<^verbatim>\<open>userClient\<close> as the entry's DN with
  the submitted password; any rejection is replaced by the invalid-credentials error; the
  \<^verbatim>\<open>finally\<close> unbinds \<^verbatim>\<open>userClient\<close> and drops the reply
  (\<^verbatim>\<open>.catch(() => {})\<close>). The function takes the history so far and returns the error thrown,
  if any, and the new history.
\<close>

definition userBind :: "directory \<Rightarrow> string \<Rightarrow> string \<Rightarrow> string \<Rightarrow> event list \<Rightarrow> js_error option \<times> event list" where
  "userBind d username password userDN h =
     (let r = bind_reply d h UserClient userDN password;
          h1 = h @ [Bind UserClient userDN password r];
          (thrown, h2) =
            (case r of
               None \<Rightarrow> (None, h1 @ [LogInfo (''User '' @ [quote] @ username @ [quote] @ '' authenticated successfully'')])
             | Some err \<Rightarrow> (Some (invalidCredentialsError username), h1))
      in (thrown, h2 @ [Unbind UserClient (unbind_reply d h2 UserClient)]))"

text \<open>
  From the entries of a successful search to the result: the length checks, the warning,
  the unbind of \<^verbatim>\<open>client\<close> (awaited, so its rejection is thrown), the second client, the
  re-bind and the extraction.
\<close>

definition afterSearch :: "directory \<Rightarrow> string \<Rightarrow> string \<Rightarrow> ldapClientConfig \<Rightarrow> entry list \<Rightarrow> event list \<Rightarrow> (js_error + ldapUserInfo) \<times> event list" where
  "afterSearch d username password config searchEntries h =
     (case searchEntries of
        [] \<Rightarrow> (Inl (notFoundError username), h)
      | userEntry # others \<Rightarrow>
          (let h1 = (if length searchEntries > 1
                     then h @ [LogWarn (''Multiple users found for '' @ [quote] @ username @ [quote] @ '', using first result'')]
                     else h);
               userDN = entry_dn userEntry;
               r = unbind_reply d h1 Client;
               h2 = h1 @ [Unbind Client r]
           in case r of
                Some err \<Rightarrow> (Inl err, h2)
              | None \<Rightarrow>
                  (let h3 = h2 @ [NewClient UserClient (baseClientOptions config)];
                       (thrown, h4) = userBind d username password userDN h3
                   in case thrown of
                        Some err \<Rightarrow> (Inl err, h4)
                      | None \<Rightarrow> (Inr (buildUserInfo username config userEntry), h4))))"

text \<open>Step 2 of the source: build the filter, log it, search.\<close>

definition searchUser :: "directory \<Rightarrow> string \<Rightarrow> string \<Rightarrow> ldapClientConfig \<Rightarrow> event list \<Rightarrow> (js_error + ldapUserInfo) \<times> event list" where
  "searchUser d username password config h =
     (let filter = buildFilter (searchFilter config) username;
          h1 = h @ [LogInfo (''Searching for user in '' @ searchBase config @ '' with filter: '' @ filter)];
          opts = SearchOptions filter (usernameAttribute config # userAttributes config) ''sub'';
          r = search_reply d h1 Client (searchBase config) opts;
          h2 = h1 @ [Search Client (searchBase config) opts r]
      in case r of
           Inl err \<Rightarrow> (Inl err, h2)
         | Inr searchEntries \<Rightarrow> afterSearch d username password config searchEntries h2)"

text \<open>The body of the outer \<^verbatim>\<open>try\<close>: the service bind, when configured, then the rest.\<close>

definition tryBody :: "directory \<Rightarrow> string \<Rightarrow> string \<Rightarrow> ldapClientConfig \<Rightarrow> event list \<Rightarrow> (js_error + ldapUserInfo) \<times> event list" where
  "tryBody d username password config h =
     (if truthy (bindDN config) \<and> truthy (bindCredentials config) then
        (let h1 = h @ [LogInfo (''Binding to LDAP as service account: '' @ the (bindDN config))];
             r = bind_reply d h1 Client (the (bindDN config)) (the (bindCredentials config));
             h2 = h1 @ [Bind Client (the (bindDN config)) (the (bindCredentials config)) r]
         in case r of
              Some err \<Rightarrow> (Inl err, h2)
            | None \<Rightarrow> searchUser d username password config h2)
      else searchUser d username password config h)"

text \<open>
  The whole call: the first client, the guarded body, and the outer \<^verbatim>\<open>finally\<close>, which
  unbinds \<^verbatim>\<open>client\<close> and drops the reply. The result is the returned record or the
  error thrown, with the history of the call.
\<close>

definition authenticateWithLdap :: "directory \<Rightarrow> string \<Rightarrow> string \<Rightarrow> ldapClientConfig \<Rightarrow> (js_error + ldapUserInfo) \<times> event list" where
  "authenticateWithLdap d username password config =
     (let (res, h) = tryBody d username password config [NewClient Client (baseClientOptions config)]
      in (res, h @ [Unbind Client (unbind_reply d h Client)]))"

subsection \<open>The failure branch of handleCredentialAuth\<close>

text \<open>
  The \<^verbatim>\<open>catch\<close> block of the HTTP handler: whatever \<^verbatim>\<open>authenticateWithLdap\<close> threw is
  answered with status 401, the error name \<^verbatim>\<open>AuthenticationError\<close> and the message of
  the error (every thrown value of the model is an \<^verbatim>\<open>Error\<close> object, so the branch
  for other values is not taken).
\<close>

datatype httpError = HttpError (http_status: nat) (http_error_name: string) (http_error_message: string)

definition handleAuthFailure :: "js_error \<Rightarrow> httpError" where
  "handleAuthFailure error = HttpError 401 ''AuthenticationError'' (err_message error)"

subsection \<open>Vocabulary for histories\<close>

text \<open>The guard of the service bind: both settings are truthy.\<close>

definition serviceBindConfigured :: "ldapClientConfig \<Rightarrow> bool" where
  "serviceBindConfigured config = (truthy (bindDN config) \<and> truthy (bindCredentials config))"

text \<open>The pieces a history of one call is made of, in the order they occur.\<close>

definition serviceBindEvents :: "ldapClientConfig \<Rightarrow> js_error option \<Rightarrow> event list" where
  "serviceBindEvents config r =
     [LogInfo (''Binding to LDAP as service account: '' @ the (bindDN config)),
      Bind Client (the (bindDN config)) (the (bindCredentials config)) r]"

definition openingEvents :: "ldapClientConfig \<Rightarrow> event list" where
  "openingEvents config =
     NewClient Client (baseClientOptions config)
       # (if serviceBindConfigured config then serviceBindEvents config None else [])"

definition searchRequest :: "string \<Rightarrow> ldapClientConfig \<Rightarrow> searchOptions" where
  "searchRequest username config =
     SearchOptions (buildFilter (searchFilter config) username)
       (usernameAttribute config # userAttributes config) ''sub''"

definition searchEvents :: "string \<Rightarrow> ldapClientConfig \<Rightarrow> js_error + entry list \<Rightarrow> event list" where
  "searchEvents username config r =
     [LogInfo (''Searching for user in '' @ searchBase config @ '' with filter: ''
                 @ buildFilter (searchFilter config) username),
      Search Client (searchBase config) (searchRequest username config) r]"

definition warnEvents :: "string \<Rightarrow> entry list \<Rightarrow> event list" where
  "warnEvents username others =
     (if others = [] then []
      else [LogWarn (''Multiple users found for '' @ [quote] @ username @ [quote] @ '', using first result'')])"

definition rebindEvents :: "string \<Rightarrow> string \<Rightarrow> ldapClientConfig \<Rightarrow> entry \<Rightarrow> js_error option \<Rightarrow> event list" where
  "rebindEvents username password config userEntry r =
     [Unbind Client None, NewClient UserClient (baseClientOptions config),
      Bind UserClient (entry_dn userEntry) password r]
     @ (if r = None
        then [LogInfo (''User '' @ [quote] @ username @ [quote] @ '' authenticated successfully'')]
        else [])"

text \<open>The messages sent to \<^verbatim>\<open>logger.warn\<close> during a call, in order.\<close>

fun warnings :: "event list \<Rightarrow> string list" where
  "warnings [] = []"
| "warnings (LogWarn m # evs) = m # warnings evs"
| "warnings (ev # evs) = warnings evs"

subsection \<open>The escaping and the substitution as the specification words them\<close>

text \<open>
  The escape of one character as a table: each of the characters of the class is a
  backslash and the two hexadecimal digits of its code, any other character is itself.
\<close>

definition hexEscape :: "char \<Rightarrow> string" where
  "hexEscape c =
     (if c = backslash then backslash # ''5c''
      else if c = CHR ''*'' then backslash # ''2a''
      else if c = CHR ''('' then backslash # ''28''
      else if c = CHR '')'' then backslash # ''29''
      else if c = dquote then backslash # ''22''
      else if c = nul then backslash # ''00''
      else if c = CHR ''/'' then backslash # ''2f''
      else [c])"

definition isHexDigit :: "char \<Rightarrow> bool" where
  "isHexDigit c = (c \<in> set ''0123456789abcdef'')"

text \<open>
  A value is well escaped when it reads, from left to right, as characters outside the
  class and escapes (a backslash and two hexadecimal digits): no character of the class
  stands for itself.
\<close>

fun wellEscaped :: "string \<Rightarrow> bool" where
  "wellEscaped [] = True"
| "wellEscaped [c] = (\<not> filterSpecial c)"
| "wellEscaped [c, c'] = (\<not> filterSpecial c \<and> \<not> filterSpecial c')"
| "wellEscaped (c # h # h' # cs) =
     (if c = backslash then isHexDigit h \<and> isHexDigit h' \<and> wellEscaped cs
      else \<not> filterSpecial c \<and> wellEscaped (h # h' # cs))"

text \<open>Substitution by the letter: every placeholder becomes the value, unchanged.\<close>

fun substituteLiteral :: "string \<Rightarrow> string \<Rightarrow> string" where
  "substituteLiteral v [] = []"
| "substituteLiteral v (c # cs) =
     (if startsWith (c # cs) placeholder
      then v @ substituteLiteral v (drop (length placeholder) (c # cs))
      else c # substituteLiteral v cs)"

text \<open>
  A replacement string that \<^verbatim>\<open>replace\<close> leaves as it is: no dollar in it is followed
  by a dollar, an ampersand, a backtick or an apostrophe.
\<close>

fun replacementPatternFree :: "string \<Rightarrow> bool" where
  "replacementPatternFree [] = True"
| "replacementPatternFree [c] = True"
| "replacementPatternFree (c # c' # cs) =
     ((c = dollar \<longrightarrow> c' \<notin> {dollar, CHR ''&'', backtick, quote}) \<and> replacementPatternFree (c' # cs))"

subsection \<open>A concrete configuration and scripted directories\<close>

definition exampleConfig :: ldapClientConfig where
  "exampleConfig =
     \<lparr> url = ''ldaps://d:636'', bindDN = Some ''svc'', bindCredentials = Some ''p'',
       searchBase = ''ou=u,dc=x'', usernameAttribute = ''uid'',
       searchFilter = ''(uid={{username}})'', userAttributes = [''mail'', ''jpegPhoto''],
       tls_rejectUnauthorized = True \<rparr>"

text \<open>The same configuration with the service account's secret left out.\<close>

definition halfConfig :: ldapClientConfig where
  "halfConfig = exampleConfig \<lparr> bindCredentials := None \<rparr>"

text \<open>
  An entry whose \<^verbatim>\<open>memberOf\<close> came back as one string and whose \<^verbatim>\<open>jpegPhoto\<close>
  came back as an array holding one \<^verbatim>\<open>Buffer\<close>.
\<close>

definition jdoeEntry :: entry where
  "jdoeEntry =
     Entry ''uid=jdoe,ou=u,dc=x''
       [(''uid'', JString ''jdoe''), (''mail'', JString ''jdoe@x.com''),
        (''memberOf'', JString ''cn=dev''), (''jpegPhoto'', JArray [JOther])]"

definition jdoe2Entry :: entry where
  "jdoe2Entry = Entry ''uid=jdoe2,ou=u,dc=x'' [(''uid'', JString ''jdoe'')]"

text \<open>
  A directory in the manner of the mocks of the test suite: the reply to a bind depends on
  the client, the reply to the search is fixed, the reply to an unbind depends on the
  history and the client.
\<close>

definition scriptedDirectory ::
  "(conn \<Rightarrow> js_error option) \<Rightarrow> (js_error + entry list) \<Rightarrow> (event list \<Rightarrow> conn \<Rightarrow> js_error option) \<Rightarrow> directory" where
  "scriptedDirectory binds found unbinds =
     \<lparr> bind_reply = (\<lambda>h c userDN password. binds c),
       search_reply = (\<lambda>h c base opts. found),
       unbind_reply = unbinds \<rparr>"

definition rejected :: js_error where
  "rejected = JsError ''InvalidCredentialsError'' ''Invalid credentials during a bind operation. Code: 0x31''"

definition socketError :: js_error where
  "socketError = JsError ''Error'' ''Connection closed''"

fun isUnbind :: "event \<Rightarrow> bool" where
  "isUnbind (Unbind c r) = True"
| "isUnbind ev = False"

text \<open>Every request succeeds and the search finds the one entry.\<close>

definition goodDirectory :: directory where
  "goodDirectory = scriptedDirectory (\<lambda>c. None) (Inr [jdoeEntry]) (\<lambda>h c. None)"

text \<open>As before, but every unbind after the first one of the call is rejected.\<close>

definition flakyCloseDirectory :: directory where
  "flakyCloseDirectory =
     scriptedDirectory (\<lambda>c. None) (Inr [jdoeEntry])
       (\<lambda>h c. if list_ex isUnbind h then Some socketError else None)"

text \<open>The service account is rejected.\<close>

definition serviceRejectedDirectory :: directory where
  "serviceRejectedDirectory =
     scriptedDirectory (\<lambda>c. if c = Client then Some rejected else None) (Inr [jdoeEntry]) (\<lambda>h c. None)"

text \<open>
  The service account is rejected with a plain error that happens to carry the text of the
  invalid-credentials error for the user.
\<close>

definition serviceRejectedPlainlyDirectory :: directory where
  "serviceRejectedPlainlyDirectory =
     scriptedDirectory (\<lambda>c. if c = Client then Some (invalidCredentialsError ''jdoe'') else None)
       (Inr [jdoeEntry]) (\<lambda>h c. None)"

text \<open>The user's password is rejected.\<close>

definition passwordRejectedDirectory :: directory where
  "passwordRejectedDirectory =
     scriptedDirectory (\<lambda>c. if c = UserClient then Some rejected else None) (Inr [jdoeEntry]) (\<lambda>h c. None)"

text \<open>The search finds nothing; the search finds two entries.\<close>

definition emptyDirectory :: directory where
  "emptyDirectory = scriptedDirectory (\<lambda>c. None) (Inr []) (\<lambda>h c. None)"

definition crowdedDirectory :: directory where
  "crowdedDirectory = scriptedDirectory (\<lambda>c. None) (Inr [jdoeEntry, jdoe2Entry]) (\<lambda>h c. None)"

section \<open>Escaping and substitution\<close>

lemma escapeChar_table: "(if filterSpecial c then escapeChar c else [c]) = hexEscape c"
proof (cases "filterSpecial c")
  case True
  then consider "c = backslash" | "c = CHR ''*''" | "c = CHR ''(''" | "c = CHR '')''"
    | "c = dquote" | "c = nul" | "c = CHR ''/''"
    by (auto simp: filterSpecial_def)
  then have "escapeChar c = hexEscape c"
    by cases (simp_all add: escapeChar_def hexEscape_def padStart_def toString16.simps hexDigit_def)
  with True show ?thesis by simp
next
  case False
  then show ?thesis by (simp add: filterSpecial_def hexEscape_def)
qed

lemma escapeLdapFilter_table: "escapeLdapFilter input = concat (map hexEscape input)"
  by (simp add: escapeLdapFilter_def escapeChar_table)

lemma wellEscaped_plain: "\<not> filterSpecial c \<Longrightarrow> wellEscaped (c # s) = wellEscaped s"
  by (cases "c # s" rule: wellEscaped.cases) (auto simp: filterSpecial_def)

lemma wellEscaped_hexEscape: "wellEscaped (hexEscape c @ s) = wellEscaped s"
proof (cases "filterSpecial c")
  case True
  then consider "c = backslash" | "c = CHR ''*''" | "c = CHR ''(''" | "c = CHR '')''"
    | "c = dquote" | "c = nul" | "c = CHR ''/''"
    by (auto simp: filterSpecial_def)
  then show ?thesis
    by cases (simp_all add: hexEscape_def isHexDigit_def)
next
  case False
  then have "hexEscape c = [c]"
    by (simp add: filterSpecial_def hexEscape_def)
  with False show ?thesis
    by (simp add: wellEscaped_plain)
qed

lemma wellEscaped_escapeLdapFilter: "wellEscaped (escapeLdapFilter input)"
  unfolding escapeLdapFilter_table
  by (induction input) (simp_all add: wellEscaped_hexEscape)

text \<open>Where the replacement string holds no pattern, the substitution is literal.\<close>

lemma replacementPatternFree_Cons:
  "replacementPatternFree (c # s) =
     ((c = dollar \<longrightarrow> (case s of [] \<Rightarrow> True | c' # cs \<Rightarrow> c' \<notin> {dollar, CHR ''&'', backtick, quote}))
      \<and> replacementPatternFree s)"
  by (cases s) simp_all

lemma replacementPatternFree_hexEscape:
  "replacementPatternFree (hexEscape c @ s) =
     ((c = dollar \<longrightarrow> (case s of [] \<Rightarrow> True | c' # cs \<Rightarrow> c' \<notin> {dollar, CHR ''&'', backtick, quote}))
      \<and> replacementPatternFree s)"
  by (simp add: hexEscape_def replacementPatternFree_Cons)

lemma hexEscape_head: "\<exists>ys. hexEscape c = c # ys \<or> hexEscape c = backslash # ys"
  by (simp add: hexEscape_def)

lemma replacementPatternFree_escapeLdapFilter:
  "replacementPatternFree username \<Longrightarrow> replacementPatternFree (escapeLdapFilter username)"
  unfolding escapeLdapFilter_table
proof (induction username rule: replacementPatternFree.induct)
  case 1
  show ?case by simp
next
  case (2 c)
  show ?case by (simp add: hexEscape_def)
next
  case (3 c c' cs)
  from hexEscape_head [of c'] obtain ys where
    "hexEscape c' = c' # ys \<or> hexEscape c' = backslash # ys"
    by blast
  with 3 show ?case
    by (auto simp: replacementPatternFree_hexEscape)
qed

lemma getSubstitution_literal:
  "replacementPatternFree repl \<Longrightarrow> getSubstitution matched pre post repl = repl"
  by (induction matched pre post repl rule: getSubstitution.induct) auto

lemma replacePlaceholder_literal:
  "replacementPatternFree repl \<Longrightarrow> replacePlaceholder repl pre s = substituteLiteral repl s"
  by (induction repl pre s rule: replacePlaceholder.induct) (simp_all add: getSubstitution_literal)

lemma buildFilter_literal:
  "replacementPatternFree username \<Longrightarrow>
     buildFilter template username = substituteLiteral (escapeLdapFilter username) template"
  by (simp add: buildFilter_def replacePlaceholder_literal replacementPatternFree_escapeLdapFilter)

section \<open>The shape of a call\<close>

text \<open>Truthy settings are strings that are there.\<close>

lemma truthy_Some: "truthy x \<Longrightarrow> Some (the x) = x"
  by (cases x) simp_all

lemma userBind_cases:
  "userBind d username password userDN h =
    (case bind_reply d h UserClient userDN password of
       None \<Rightarrow> (None, h @ [Bind UserClient userDN password None,
                 LogInfo (''User '' @ [quote] @ username @ [quote] @ '' authenticated successfully''),
                 Unbind UserClient (unbind_reply d (h @ [Bind UserClient userDN password None,
                 LogInfo (''User '' @ [quote] @ username @ [quote] @ '' authenticated successfully'')]) UserClient)])
     | Some err \<Rightarrow> (Some (invalidCredentialsError username),
                 h @ [Bind UserClient userDN password (Some err),
                   Unbind UserClient (unbind_reply d (h @ [Bind UserClient userDN password (Some err)]) UserClient)]))"
  by (simp add: userBind_def Let_def split: option.splits)

lemma afterSearch_cases:
  "(searchEntries = [] \<and> afterSearch d username password config searchEntries h = (Inl (notFoundError username), h))
 \<or> (\<exists>userEntry others err. searchEntries = userEntry # others \<and>
       afterSearch d username password config searchEntries h
         = (Inl err, h @ warnEvents username others @ [Unbind Client (Some err)]))
 \<or> (\<exists>userEntry others err r. searchEntries = userEntry # others \<and>
       afterSearch d username password config searchEntries h
         = (Inl (invalidCredentialsError username),
            h @ warnEvents username others @ rebindEvents username password config userEntry (Some err) @ [Unbind UserClient r]))
 \<or> (\<exists>userEntry others r. searchEntries = userEntry # others \<and>
       afterSearch d username password config searchEntries h
         = (Inr (buildUserInfo username config userEntry),
            h @ warnEvents username others @ rebindEvents username password config userEntry None @ [Unbind UserClient r]))"
  by (cases searchEntries)
     (auto simp: afterSearch_def userBind_cases warnEvents_def rebindEvents_def Let_def split: option.splits)


lemma searchUser_unfold:
  "searchUser d username password config h =
     (case search_reply d (h @ [LogInfo (''Searching for user in '' @ searchBase config @ '' with filter: ''
                 @ buildFilter (searchFilter config) username)]) Client (searchBase config) (searchRequest username config) of
        Inl err \<Rightarrow> (Inl err, h @ searchEvents username config (Inl err))
      | Inr searchEntries \<Rightarrow>
          afterSearch d username password config searchEntries (h @ searchEvents username config (Inr searchEntries)))"
  by (simp add: searchUser_def searchEvents_def searchRequest_def Let_def split: sum.splits)

lemma tryBody_unfold:
  "tryBody d username password config [NewClient Client (baseClientOptions config)] =
     (if serviceBindConfigured config then
        (case bind_reply d [NewClient Client (baseClientOptions config),
                 LogInfo (''Binding to LDAP as service account: '' @ the (bindDN config))]
               Client (the (bindDN config)) (the (bindCredentials config)) of
           Some err \<Rightarrow> (Inl err, NewClient Client (baseClientOptions config) # serviceBindEvents config (Some err))
         | None \<Rightarrow> searchUser d username password config (openingEvents config))
      else searchUser d username password config (openingEvents config))"
  by (simp add: tryBody_def serviceBindConfigured_def serviceBindEvents_def openingEvents_def Let_def
           split: option.splits)

lemma searchUser_cases:
  "(\<exists>err. searchUser d username password config h = (Inl err, h @ searchEvents username config (Inl err)))
 \<or> (searchUser d username password config h
       = (Inl (notFoundError username), h @ searchEvents username config (Inr [])))
 \<or> (\<exists>userEntry others err.
       searchUser d username password config h
         = (Inl err, h @ searchEvents username config (Inr (userEntry # others))
                       @ warnEvents username others @ [Unbind Client (Some err)]))
 \<or> (\<exists>userEntry others err r.
       searchUser d username password config h
         = (Inl (invalidCredentialsError username),
            h @ searchEvents username config (Inr (userEntry # others)) @ warnEvents username others
              @ rebindEvents username password config userEntry (Some err) @ [Unbind UserClient r]))
 \<or> (\<exists>userEntry others r.
       searchUser d username password config h
         = (Inr (buildUserInfo username config userEntry),
            h @ searchEvents username config (Inr (userEntry # others)) @ warnEvents username others
              @ rebindEvents username password config userEntry None @ [Unbind UserClient r]))"
proof (cases "search_reply d (h @ [LogInfo (''Searching for user in '' @ searchBase config @ '' with filter: ''
                 @ buildFilter (searchFilter config) username)]) Client (searchBase config) (searchRequest username config)")
  case (Inl err)
  then show ?thesis by (simp add: searchUser_unfold)
next
  case (Inr searchEntries)
  then have eq: "searchUser d username password config h
      = afterSearch d username password config searchEntries (h @ searchEvents username config (Inr searchEntries))"
    by (simp add: searchUser_unfold)
  show ?thesis
    using afterSearch_cases [of searchEntries d username password config "h @ searchEvents username config (Inr searchEntries)"]
    unfolding eq by (elim disjE exE conjE, simp_all) blast+
qed

lemma run_cases [case_names ServiceBindFailed SearchFailed NotFound CloseFailed RebindFailed Success]:
  obtains
    err r where "serviceBindConfigured config"
      "authenticateWithLdap d username password config
         = (Inl err, NewClient Client (baseClientOptions config) # serviceBindEvents config (Some err)
                       @ [Unbind Client r])"
  | err r where
      "authenticateWithLdap d username password config
         = (Inl err, openingEvents config @ searchEvents username config (Inl err) @ [Unbind Client r])"
  | r where
      "authenticateWithLdap d username password config
         = (Inl (notFoundError username),
            openingEvents config @ searchEvents username config (Inr []) @ [Unbind Client r])"
  | userEntry others err r where
      "authenticateWithLdap d username password config
         = (Inl err, openingEvents config @ searchEvents username config (Inr (userEntry # others))
                       @ warnEvents username others @ [Unbind Client (Some err), Unbind Client r])"
  | userEntry others err r r' where
      "authenticateWithLdap d username password config
         = (Inl (invalidCredentialsError username),
            openingEvents config @ searchEvents username config (Inr (userEntry # others))
              @ warnEvents username others @ rebindEvents username password config userEntry (Some err)
              @ [Unbind UserClient r, Unbind Client r'])"
  | userEntry others r r' where
      "authenticateWithLdap d username password config
         = (Inr (buildUserInfo username config userEntry),
            openingEvents config @ searchEvents username config (Inr (userEntry # others))
              @ warnEvents username others @ rebindEvents username password config userEntry None
              @ [Unbind UserClient r, Unbind Client r'])"
proof (cases "serviceBindConfigured config \<and>
    bind_reply d [NewClient Client (baseClientOptions config),
                 LogInfo (''Binding to LDAP as service account: '' @ the (bindDN config))]
               Client (the (bindDN config)) (the (bindCredentials config)) \<noteq> None")
  case True
  then show ?thesis
    using that(1) by (auto simp: authenticateWithLdap_def tryBody_unfold)
next
  case False
  then have eq: "tryBody d username password config [NewClient Client (baseClientOptions config)]
      = searchUser d username password config (openingEvents config)"
    by (auto simp: tryBody_unfold)
  show ?thesis
    using searchUser_cases [of d username password config "openingEvents config"] that(2-6)
    unfolding authenticateWithLdap_def eq
    by (elim disjE exE) simp_all
qed


lemmas shape_simps = openingEvents_def serviceBindEvents_def searchEvents_def searchRequest_def
  warnEvents_def rebindEvents_def



lemma warnings_append: "warnings (xs @ ys) = warnings xs @ warnings ys"
  by (induction xs rule: warnings.induct) simp_all

text \<open>Reading a history backwards: what a given event says about the whole call.\<close>

lemma search_found_inv:
  assumes "authenticateWithLdap d username password config = (res, tr)"
    and "Search c base opts (Inr (userEntry # others)) \<in> set tr"
  shows "(\<exists>err r. res = Inl err \<and>
            tr = openingEvents config @ searchEvents username config (Inr (userEntry # others))
                   @ warnEvents username others @ [Unbind Client (Some err), Unbind Client r])
       \<or> (\<exists>err r r'. res = Inl (invalidCredentialsError username) \<and>
            tr = openingEvents config @ searchEvents username config (Inr (userEntry # others))
                   @ warnEvents username others @ rebindEvents username password config userEntry (Some err)
                   @ [Unbind UserClient r, Unbind Client r'])
       \<or> (\<exists>r r'. res = Inr (buildUserInfo username config userEntry) \<and>
            tr = openingEvents config @ searchEvents username config (Inr (userEntry # others))
                   @ warnEvents username others @ rebindEvents username password config userEntry None
                   @ [Unbind UserClient r, Unbind Client r'])"
  using assms
  by (cases rule: run_cases [of config d username password])
     (auto simp: shape_simps split: if_splits)

lemma rebind_inv:
  assumes run: "authenticateWithLdap d username password config = (res, tr)"
    and ev: "Bind UserClient userDN pw reply \<in> set tr"
  shows "\<exists>userEntry others r r'.
      userDN = entry_dn userEntry \<and> pw = password \<and>
      res = (case reply of None \<Rightarrow> Inr (buildUserInfo username config userEntry)
                | Some err \<Rightarrow> Inl (invalidCredentialsError username)) \<and>
      tr = openingEvents config @ searchEvents username config (Inr (userEntry # others))
              @ warnEvents username others @ rebindEvents username password config userEntry reply
              @ [Unbind UserClient r, Unbind Client r']"
proof (cases rule: run_cases [of config d username password])
  case (RebindFailed userEntry others err r r')
  with run ev have "reply = Some err \<and> userDN = entry_dn userEntry \<and> pw = password"
    by (auto simp: shape_simps split: if_splits)
  with RebindFailed run show ?thesis
    by (intro exI [of _ userEntry] exI [of _ others] exI [of _ r] exI [of _ r']) simp
next
  case (Success userEntry others r r')
  with run ev have "reply = None \<and> userDN = entry_dn userEntry \<and> pw = password"
    by (auto simp: shape_simps split: if_splits)
  with Success run show ?thesis
    by (intro exI [of _ userEntry] exI [of _ others] exI [of _ r] exI [of _ r']) simp
qed (use run ev in \<open>auto simp: shape_simps split: if_splits\<close>)

lemma service_bind_inv:
  assumes "authenticateWithLdap d username password config = (res, tr)"
    and "Bind Client bindName secret reply \<in> set tr"
  shows "bindDN config = Some bindName \<and> bindCredentials config = Some secret"
  using assms
  by (cases rule: run_cases [of config d username password])
     (auto simp: shape_simps serviceBindConfigured_def truthy_Some split: if_splits)

lemma service_bind_rejected_inv:
  assumes "authenticateWithLdap d username password config = (res, tr)"
    and "Bind Client bindName secret (Some err) \<in> set tr"
  shows "res = Inl err \<and>
    (\<exists>r. tr = NewClient Client (baseClientOptions config) # serviceBindEvents config (Some err) @ [Unbind Client r])"
  using assms
  by (cases rule: run_cases [of config d username password])
     (auto simp: shape_simps split: if_splits)

lemma search_empty_inv:
  assumes "authenticateWithLdap d username password config = (res, tr)"
    and "Search c base opts (Inr []) \<in> set tr"
  shows "res = Inl (notFoundError username) \<and>
    (\<exists>r. tr = openingEvents config @ searchEvents username config (Inr []) @ [Unbind Client r])"
  using assms
  by (cases rule: run_cases [of config d username password])
     (auto simp: shape_simps split: if_splits)


lemma search_filter_inv:
  assumes "authenticateWithLdap d username password config = (res, tr)"
    and "Search c base opts r \<in> set tr"
  shows "c = Client \<and> base = searchBase config \<and> opts = searchRequest username config"
  using assms
  by (cases rule: run_cases [of config d username password])
     (auto simp: openingEvents_def serviceBindEvents_def searchEvents_def warnEvents_def rebindEvents_def
           split: if_splits)

text \<open>Where the clients are created and unbound; where a failure comes from.\<close>

lemma first_client_released:
  assumes "authenticateWithLdap d username password config = (res, tr)"
  shows "\<exists>rest r. tr = NewClient Client (baseClientOptions config) # rest @ [Unbind Client r]"
proof (cases rule: run_cases [of config d username password])
  case (ServiceBindFailed err r)
  with assms have "tr = NewClient Client (baseClientOptions config) # serviceBindEvents config (Some err) @ [Unbind Client r]"
    by simp
  then show ?thesis by blast
next
  case (SearchFailed err r)
  with assms have "tr = NewClient Client (baseClientOptions config)
      # (tl (openingEvents config) @ searchEvents username config (Inl err)) @ [Unbind Client r]"
    by (simp add: openingEvents_def)
  then show ?thesis by blast
next
  case (NotFound r)
  with assms have "tr = NewClient Client (baseClientOptions config)
      # (tl (openingEvents config) @ searchEvents username config (Inr [])) @ [Unbind Client r]"
    by (simp add: openingEvents_def)
  then show ?thesis by blast
next
  case (CloseFailed userEntry others err r)
  with assms have "tr = NewClient Client (baseClientOptions config)
      # (tl (openingEvents config) @ searchEvents username config (Inr (userEntry # others))
           @ warnEvents username others @ [Unbind Client (Some err)]) @ [Unbind Client r]"
    by (simp add: openingEvents_def)
  then show ?thesis by blast
next
  case (RebindFailed userEntry others err r r')
  with assms have "tr = NewClient Client (baseClientOptions config)
      # (tl (openingEvents config) @ searchEvents username config (Inr (userEntry # others))
           @ warnEvents username others @ rebindEvents username password config userEntry (Some err)
           @ [Unbind UserClient r]) @ [Unbind Client r']"
    by (simp add: openingEvents_def)
  then show ?thesis by blast
next
  case (Success userEntry others r r')
  with assms have "tr = NewClient Client (baseClientOptions config)
      # (tl (openingEvents config) @ searchEvents username config (Inr (userEntry # others))
           @ warnEvents username others @ rebindEvents username password config userEntry None
           @ [Unbind UserClient r]) @ [Unbind Client r']"
    by (simp add: openingEvents_def)
  then show ?thesis by blast
qed

lemma second_client_released:
  assumes run: "authenticateWithLdap d username password config = (res, tr)"
    and ev: "NewClient UserClient opts \<in> set tr"
  shows "\<exists>pre post r. tr = pre @ NewClient UserClient opts # post \<and> Unbind UserClient r \<in> set post"
proof -
  have released: ?thesis
    if tr: "tr = openingEvents config @ searchEvents username config (Inr (userEntry # others))
              @ warnEvents username others @ rebindEvents username password config userEntry reply
              @ [Unbind UserClient r, Unbind Client r']"
    for userEntry others reply r r'
  proof -
    from ev have opts: "opts = baseClientOptions config"
      by (auto simp: tr shape_simps split: if_splits)
    have "tr = (openingEvents config @ searchEvents username config (Inr (userEntry # others))
              @ warnEvents username others @ [Unbind Client None])
            @ NewClient UserClient opts
            # (tl (tl (rebindEvents username password config userEntry reply))
                 @ [Unbind UserClient r, Unbind Client r'])"
      by (simp add: tr opts rebindEvents_def)
    moreover have "Unbind UserClient r \<in> set (tl (tl (rebindEvents username password config userEntry reply))
                 @ [Unbind UserClient r, Unbind Client r'])"
      by simp
    ultimately show ?thesis
      by blast
  qed
  show ?thesis
  proof (cases rule: run_cases [of config d username password])
    case (RebindFailed userEntry others err r r')
    with run have "tr = openingEvents config @ searchEvents username config (Inr (userEntry # others))
              @ warnEvents username others @ rebindEvents username password config userEntry (Some err)
              @ [Unbind UserClient r, Unbind Client r']"
      by simp
    then show ?thesis by (rule released)
  next
    case (Success userEntry others r r')
    with run have "tr = openingEvents config @ searchEvents username config (Inr (userEntry # others))
              @ warnEvents username others @ rebindEvents username password config userEntry None
              @ [Unbind UserClient r, Unbind Client r']"
      by simp
    then show ?thesis by (rule released)
  qed (use run ev in \<open>auto simp: shape_simps split: if_splits\<close>)
qed

lemma failure_provenance:
  assumes "authenticateWithLdap d username password config = (Inl err, tr)"
  shows "(\<exists>bindName secret. Bind Client bindName secret (Some err) \<in> set tr)
       \<or> (\<exists>base opts. Search Client base opts (Inl err) \<in> set tr)
       \<or> (err = notFoundError username \<and> (\<exists>base opts. Search Client base opts (Inr []) \<in> set tr))
       \<or> Unbind Client (Some err) \<in> set (butlast tr)
       \<or> (err = invalidCredentialsError username
            \<and> (\<exists>userDN e. Bind UserClient userDN password (Some e) \<in> set tr))"
  using assms
  by (cases rule: run_cases [of config d username password])
     (auto simp: shape_simps butlast_append)

text \<open>The attribute record as a map.\<close>

lemma map_of_storeAttribute:
  "map_of (storeAttribute e result attr) a =
     (if a = attr then
        (case entry_get e attr of
           JString s \<Rightarrow> Some (AString s)
         | JArray vs \<Rightarrow> Some (AStrings (filterStrings vs))
         | JOther \<Rightarrow> map_of result a)
      else map_of result a)"
  by (simp add: storeAttribute_def update_conv' split: jsval.splits)

lemma map_of_foldl_storeAttribute:
  "map_of (foldl (storeAttribute e) result attrs) a =
     (if a \<in> set attrs then
        (case entry_get e a of
           JString s \<Rightarrow> Some (AString s)
         | JArray vs \<Rightarrow> Some (AStrings (filterStrings vs))
         | JOther \<Rightarrow> map_of result a)
      else map_of result a)"
proof (induction attrs arbitrary: result)
  case Nil
  show ?case by simp
next
  case (Cons attr attrs)
  show ?case
    by (simp add: Cons.IH map_of_storeAttribute split: jsval.splits)
qed

lemma map_of_extractAllAttributes:
  "map_of (extractAllAttributes e attrs) a =
     (if a \<in> set attrs then
        (case entry_get e a of
           JString s \<Rightarrow> Some (AString s)
         | JArray vs \<Rightarrow> Some (AStrings (filterStrings vs))
         | JOther \<Rightarrow> None)
      else None)"
  by (simp add: extractAllAttributes_def map_of_foldl_storeAttribute split: jsval.splits)

section \<open>Concrete calls\<close>

lemmas model_defs = authenticateWithLdap_def tryBody_def searchUser_def afterSearch_def userBind_def Let_def
lemmas vocabulary_defs = shape_simps serviceBindConfigured_def
lemmas script_defs = scriptedDirectory_def exampleConfig_def halfConfig_def

lemma run_good:
  "authenticateWithLdap goodDirectory ''jdoe'' ''secret'' exampleConfig =
     (Inr (buildUserInfo ''jdoe'' exampleConfig jdoeEntry),
      openingEvents exampleConfig @ searchEvents ''jdoe'' exampleConfig (Inr [jdoeEntry])
        @ rebindEvents ''jdoe'' ''secret'' exampleConfig jdoeEntry None
        @ [Unbind UserClient None, Unbind Client None])"
  by (simp add: model_defs vocabulary_defs goodDirectory_def script_defs)

lemma run_flaky:
  "authenticateWithLdap flakyCloseDirectory ''jdoe'' ''secret'' exampleConfig =
     (Inr (buildUserInfo ''jdoe'' exampleConfig jdoeEntry),
      openingEvents exampleConfig @ searchEvents ''jdoe'' exampleConfig (Inr [jdoeEntry])
        @ rebindEvents ''jdoe'' ''secret'' exampleConfig jdoeEntry None
        @ [Unbind UserClient (Some socketError), Unbind Client (Some socketError)])"
  by (simp add: model_defs vocabulary_defs flakyCloseDirectory_def script_defs)

lemma example_user:
  "buildUserInfo ''jdoe'' exampleConfig jdoeEntry =
     \<lparr> dn = ''uid=jdoe,ou=u,dc=x'', uid = ''jdoe'', displayName = None,
       email = Some ''jdoe@x.com'', memberOf = Some [''cn=dev''],
       attributes = [(''mail'', AString ''jdoe@x.com''), (''jpegPhoto'', AStrings [])] \<rparr>"
  by (simp add: buildUserInfo_def extractStringAttribute_def extractStringArrayAttribute_def
        extractAllAttributes_def storeAttribute_def entry_get_def jdoeEntry_def exampleConfig_def)


lemma run_empty:
  "authenticateWithLdap emptyDirectory ''jdoe'' ''secret'' exampleConfig =
     (Inl (notFoundError ''jdoe''),
      openingEvents exampleConfig @ searchEvents ''jdoe'' exampleConfig (Inr []) @ [Unbind Client None])"
  by (simp add: model_defs vocabulary_defs emptyDirectory_def script_defs)

lemma run_password_rejected:
  "authenticateWithLdap passwordRejectedDirectory ''jdoe'' ''secret'' exampleConfig =
     (Inl (invalidCredentialsError ''jdoe''),
      openingEvents exampleConfig @ searchEvents ''jdoe'' exampleConfig (Inr [jdoeEntry])
        @ rebindEvents ''jdoe'' ''secret'' exampleConfig jdoeEntry (Some rejected)
        @ [Unbind UserClient None, Unbind Client None])"
  by (simp add: model_defs vocabulary_defs passwordRejectedDirectory_def script_defs)

lemma example_filter: "buildFilter ''(uid={{username}})'' ''jdoe'' = ''(uid=jdoe)''"
  by (simp add: buildFilter_def escapeLdapFilter_def filterSpecial_def startsWith_def)

lemma example_opening:
  "openingEvents exampleConfig =
     [NewClient Client (ClientOptions ''ldaps://d:636'' (Some True)),
      LogInfo ''Binding to LDAP as service account: svc'',
      Bind Client ''svc'' ''p'' None]"
  by (simp add: openingEvents_def serviceBindConfigured_def serviceBindEvents_def baseClientOptions_def
        startsWith_def exampleConfig_def)

lemma example_search:
  "searchEvents ''jdoe'' exampleConfig r =
     [LogInfo ''Searching for user in ou=u,dc=x with filter: (uid=jdoe)'',
      Search Client ''ou=u,dc=x'' (SearchOptions ''(uid=jdoe)'' [''uid'', ''mail'', ''jpegPhoto''] ''sub'') r]"
  by (simp add: searchEvents_def searchRequest_def exampleConfig_def example_filter)

lemmas example_simps = example_opening example_search example_user rebindEvents_def warnEvents_def

lemma run_crowded:
  "authenticateWithLdap crowdedDirectory ''jdoe'' ''secret'' exampleConfig =
     (Inr (buildUserInfo ''jdoe'' exampleConfig jdoeEntry),
      openingEvents exampleConfig @ searchEvents ''jdoe'' exampleConfig (Inr [jdoeEntry, jdoe2Entry])
        @ warnEvents ''jdoe'' [jdoe2Entry]
        @ rebindEvents ''jdoe'' ''secret'' exampleConfig jdoeEntry None
        @ [Unbind UserClient None, Unbind Client None])"
  by (simp add: model_defs vocabulary_defs crowdedDirectory_def script_defs)

lemma run_half:
  "authenticateWithLdap goodDirectory ''jdoe'' ''secret'' halfConfig =
     (Inr (buildUserInfo ''jdoe'' halfConfig jdoeEntry),
      openingEvents halfConfig @ searchEvents ''jdoe'' halfConfig (Inr [jdoeEntry])
        @ rebindEvents ''jdoe'' ''secret'' halfConfig jdoeEntry None
        @ [Unbind UserClient None, Unbind Client None])"
  by (simp add: model_defs vocabulary_defs goodDirectory_def script_defs)

lemma half_opening:
  "openingEvents halfConfig = [NewClient Client (ClientOptions ''ldaps://d:636'' (Some True))]"
  by (simp add: openingEvents_def serviceBindConfigured_def baseClientOptions_def
        startsWith_def halfConfig_def exampleConfig_def)

lemma half_search:
  "searchEvents ''jdoe'' halfConfig r =
     [LogInfo ''Searching for user in ou=u,dc=x with filter: (uid=jdoe)'',
      Search Client ''ou=u,dc=x'' (SearchOptions ''(uid=jdoe)'' [''uid'', ''mail'', ''jpegPhoto''] ''sub'') r]"
  by (simp add: searchEvents_def searchRequest_def halfConfig_def exampleConfig_def example_filter)

lemma run_service_rejected:
  "authenticateWithLdap serviceRejectedDirectory ''jdoe'' ''secret'' exampleConfig =
     (Inl rejected,
      NewClient Client (baseClientOptions exampleConfig) # serviceBindEvents exampleConfig (Some rejected)
        @ [Unbind Client None])"
  by (simp add: model_defs vocabulary_defs serviceRejectedDirectory_def script_defs)

lemma run_service_rejected_plainly:
  "authenticateWithLdap serviceRejectedPlainlyDirectory ''jdoe'' ''secret'' exampleConfig =
     (Inl (invalidCredentialsError ''jdoe''),
      NewClient Client (baseClientOptions exampleConfig)
        # serviceBindEvents exampleConfig (Some (invalidCredentialsError ''jdoe''))
        @ [Unbind Client None])"
  by (simp add: model_defs vocabulary_defs serviceRejectedPlainlyDirectory_def script_defs)

lemma run_pattern:
  "authenticateWithLdap goodDirectory [dollar, quote] ''secret'' exampleConfig =
     (Inr (buildUserInfo [dollar, quote] exampleConfig jdoeEntry),
      openingEvents exampleConfig @ searchEvents [dollar, quote] exampleConfig (Inr [jdoeEntry])
        @ rebindEvents [dollar, quote] ''secret'' exampleConfig jdoeEntry None
        @ [Unbind UserClient None, Unbind Client None])"
  by (simp add: model_defs vocabulary_defs goodDirectory_def script_defs)

lemma example_service_bind:
  "serviceBindEvents exampleConfig r =
     [LogInfo ''Binding to LDAP as service account: svc'', Bind Client ''svc'' ''p'' r]"
  by (simp add: serviceBindEvents_def exampleConfig_def)

lemma example_options: "baseClientOptions exampleConfig = ClientOptions ''ldaps://d:636'' (Some True)"
  by (simp add: baseClientOptions_def startsWith_def exampleConfig_def)

section \<open>The claims\<close>

text \<open>
  C1. The escaping rewrites each character of its class into a backslash and two
  hexadecimal digits and leaves none of them raw (\<open>escapeLdapFilter_table\<close>,
  \<open>wellEscaped_escapeLdapFilter\<close>), and for a username free of replacement patterns
  the filter is the template with the escaped username put in (\<open>buildFilter_literal\<close>).
  But the escaped username is handed to \<^verbatim>\<open>replace\<close> as a replacement string, and the
  escaping leaves the dollar, the apostrophe and the backtick alone. For the username
  \<^verbatim>\<open>$'\<close> and the default template the text put in place of the placeholder is the
  rest of the template, a raw closing parenthesis: the filter is \<^verbatim>\<open>(uid=))\<close>, and that
  filter is the one sent in the search of a call. The username \<^verbatim>\<open>a$'$`b\<close> gives
  \<^verbatim>\<open>(uid=a)(uid=b)\<close>.
\<close>

theorem replacement_pattern_in_username_is_expanded:
  "escapeLdapFilter [dollar, quote] = [dollar, quote]
   \<and> buildFilter ''(uid={{username}})'' [dollar, quote] = ''(uid=))''
   \<and> buildFilter ''(uid={{username}})'' [CHR ''a'', dollar, quote, dollar, backtick, CHR ''b'']
       = ''(uid=a)(uid=b)''
   \<and> Search Client ''ou=u,dc=x'' (SearchOptions ''(uid=))'' [''uid'', ''mail'', ''jpegPhoto''] ''sub'')
         (Inr [jdoeEntry])
     \<in> set (snd (authenticateWithLdap goodDirectory [dollar, quote] ''secret'' exampleConfig))"
proof -
  have filters: "escapeLdapFilter [dollar, quote] = [dollar, quote]
      \<and> buildFilter ''(uid={{username}})'' [dollar, quote] = ''(uid=))''
      \<and> buildFilter ''(uid={{username}})'' [CHR ''a'', dollar, quote, dollar, backtick, CHR ''b'']
          = ''(uid=a)(uid=b)''"
    by (simp add: buildFilter_def escapeLdapFilter_def filterSpecial_def startsWith_def)
  then have "searchEvents [dollar, quote] exampleConfig (Inr [jdoeEntry]) =
      [LogInfo ''Searching for user in ou=u,dc=x with filter: (uid=))'',
       Search Client ''ou=u,dc=x'' (SearchOptions ''(uid=))'' [''uid'', ''mail'', ''jpegPhoto''] ''sub'')
         (Inr [jdoeEntry])]"
    by (simp add: searchEvents_def searchRequest_def exampleConfig_def)
  then have "Search Client ''ou=u,dc=x'' (SearchOptions ''(uid=))'' [''uid'', ''mail'', ''jpegPhoto''] ''sub'')
         (Inr [jdoeEntry])
     \<in> set (snd (authenticateWithLdap goodDirectory [dollar, quote] ''secret'' exampleConfig))"
    by (simp add: run_pattern)
  with filters show ?thesis
    by blast
qed



text \<open>
  C3, as stated, fails. A directory whose bind of the service account is rejected with a
  plain error carrying the text of the invalid-credentials error makes the call fail with
  the very value a rejected re-bind of the user produces. With the error class of the client
  library the call fails with that error as it is, of no class of the program's own, and the
  HTTP handler answers it, like the invalid-credentials error, with status 401 and the name
  \<^verbatim>\<open>AuthenticationError\<close>.
\<close>

theorem service_bind_failure_same_as_wrong_password:
  "Bind Client ''svc'' ''p'' (Some (JsError ''Error'' (''Invalid credentials for user '' @ [quote] @ ''jdoe'' @ [quote])))
     \<in> set (snd (authenticateWithLdap serviceRejectedPlainlyDirectory ''jdoe'' ''secret'' exampleConfig))
   \<and> Bind UserClient ''uid=jdoe,ou=u,dc=x'' ''secret'' (Some rejected)
     \<in> set (snd (authenticateWithLdap passwordRejectedDirectory ''jdoe'' ''secret'' exampleConfig))
   \<and> fst (authenticateWithLdap serviceRejectedPlainlyDirectory ''jdoe'' ''secret'' exampleConfig)
       = fst (authenticateWithLdap passwordRejectedDirectory ''jdoe'' ''secret'' exampleConfig)
   \<and> fst (authenticateWithLdap serviceRejectedDirectory ''jdoe'' ''secret'' exampleConfig)
       = Inl (JsError ''InvalidCredentialsError'' ''Invalid credentials during a bind operation. Code: 0x31'')
   \<and> handleAuthFailure (JsError ''InvalidCredentialsError'' ''Invalid credentials during a bind operation. Code: 0x31'')
       = HttpError 401 ''AuthenticationError'' ''Invalid credentials during a bind operation. Code: 0x31''
   \<and> http_status (handleAuthFailure (invalidCredentialsError ''jdoe'')) = 401
   \<and> http_error_name (handleAuthFailure (invalidCredentialsError ''jdoe'')) = ''AuthenticationError''"
  by (simp add: run_service_rejected_plainly run_password_rejected run_service_rejected
        example_service_bind example_simps jdoeEntry_def invalidCredentialsError_def newError_def
        rejected_def handleAuthFailure_def)

text \<open>
  C3, amended. Whenever the bind of the service account is rejected, the call fails with
  exactly the error of that bind, unchanged; no search is made and no second client is
  created; the last event is the unbind of the first client; and the HTTP handler answers
  that error with status 401, the name \<^verbatim>\<open>AuthenticationError\<close> and the error's message.
\<close>

theorem service_bind_failure_propagates:
  assumes "authenticateWithLdap d username password config = (res, tr)"
    and "Bind Client bindName secret (Some err) \<in> set tr"
  shows "res = Inl err
       \<and> (\<forall>c base opts r. Search c base opts r \<notin> set tr)
       \<and> (\<forall>opts. NewClient UserClient opts \<notin> set tr)
       \<and> (\<exists>r. last tr = Unbind Client r)
       \<and> handleAuthFailure err = HttpError 401 ''AuthenticationError'' (err_message err)"
  using service_bind_rejected_inv [OF assms]
  by (auto simp: shape_simps handleAuthFailure_def)

theorem service_bind_failure_propagates_witness:
  "Bind Client ''svc'' ''p'' (Some rejected)
     \<in> set (snd (authenticateWithLdap serviceRejectedDirectory ''jdoe'' ''secret'' exampleConfig))
   \<and> fst (authenticateWithLdap serviceRejectedDirectory ''jdoe'' ''secret'' exampleConfig) = Inl rejected
   \<and> (\<forall>c base opts r. Search c base opts r
         \<notin> set (snd (authenticateWithLdap serviceRejectedDirectory ''jdoe'' ''secret'' exampleConfig)))"
proof -
  let ?run = "authenticateWithLdap serviceRejectedDirectory ''jdoe'' ''secret'' exampleConfig"
  have run: "?run = (fst ?run, snd ?run)"
    by simp
  have refused: "Bind Client ''svc'' ''p'' (Some rejected) \<in> set (snd ?run)"
    by (simp add: run_service_rejected example_service_bind)
  from service_bind_failure_propagates [OF run refused] refused show ?thesis
    by simp
qed

text \<open>
  C4. Whenever the search returned no entry, the call fails with the user-not-found error,
  the only client ever created is the first one, and the only bind of the call, if any, is
  the one of the service account: no second connection, no bind for the user.
\<close>

theorem zero_entries_user_not_found:
  assumes "authenticateWithLdap d username password config = (res, tr)"
    and "Search Client base opts (Inr []) \<in> set tr"
  shows "res = Inl (JsError ''Error'' (''User '' @ [quote] @ username @ [quote] @ '' not found in LDAP directory''))
       \<and> (\<forall>c opts'. NewClient c opts' \<in> set tr \<longrightarrow> c = Client)
       \<and> (\<forall>c userDN pw r. Bind c userDN pw r \<in> set tr \<longrightarrow>
             c = Client \<and> bindDN config = Some userDN \<and> bindCredentials config = Some pw)"
  using search_empty_inv [OF assms]
  by (auto simp: shape_simps notFoundError_def newError_def serviceBindConfigured_def truthy_Some
           split: if_splits)

theorem zero_entries_user_not_found_witness:
  "Search Client ''ou=u,dc=x'' (SearchOptions ''(uid=jdoe)'' [''uid'', ''mail'', ''jpegPhoto''] ''sub'') (Inr [])
     \<in> set (snd (authenticateWithLdap emptyDirectory ''jdoe'' ''secret'' exampleConfig))
   \<and> fst (authenticateWithLdap emptyDirectory ''jdoe'' ''secret'' exampleConfig)
       = Inl (JsError ''Error'' (''User '' @ [quote] @ ''jdoe'' @ [quote] @ '' not found in LDAP directory''))
   \<and> (\<forall>opts. NewClient UserClient opts \<notin> set (snd (authenticateWithLdap emptyDirectory ''jdoe'' ''secret'' exampleConfig)))"
proof -
  let ?run = "authenticateWithLdap emptyDirectory ''jdoe'' ''secret'' exampleConfig"
  have run: "?run = (fst ?run, snd ?run)"
    by simp
  have found: "Search Client ''ou=u,dc=x'' (SearchOptions ''(uid=jdoe)'' [''uid'', ''mail'', ''jpegPhoto''] ''sub'') (Inr [])
      \<in> set (snd ?run)"
    by (simp add: run_empty example_simps)
  from zero_entries_user_not_found [OF run found] found show ?thesis
    by auto
qed

text \<open>
  C5. Whenever the re-bind of the user is rejected, whatever error the directory gave, the
  call fails with the one invalid-credentials error, which names the submitted username and
  nothing of the directory's error; the re-bind was made for the DN of the first entry found
  with the submitted password, and the second client is unbound after it.
\<close>

theorem rebind_failure_is_invalid_credentials:
  assumes "authenticateWithLdap d username password config = (res, tr)"
    and "Bind UserClient userDN pw (Some err) \<in> set tr"
  shows "res = Inl (JsError ''Error'' (''Invalid credentials for user '' @ [quote] @ username @ [quote]))
       \<and> pw = password
       \<and> (\<exists>userEntry others. userDN = entry_dn userEntry
             \<and> Search Client (searchBase config) (searchRequest username config) (Inr (userEntry # others)) \<in> set tr)
       \<and> (\<exists>pre post r. tr = pre @ Bind UserClient userDN pw (Some err) # post
             \<and> Unbind UserClient r \<in> set post)"
proof -
  from rebind_inv [OF assms] obtain userEntry others r r' where
    dn: "userDN = entry_dn userEntry" and pw: "pw = password"
    and res: "res = Inl (invalidCredentialsError username)"
    and tr: "tr = openingEvents config @ searchEvents username config (Inr (userEntry # others))
              @ warnEvents username others @ rebindEvents username password config userEntry (Some err)
              @ [Unbind UserClient r, Unbind Client r']"
    by auto
  have "tr = (openingEvents config @ searchEvents username config (Inr (userEntry # others))
              @ warnEvents username others @ [Unbind Client None, NewClient UserClient (baseClientOptions config)])
            @ Bind UserClient userDN pw (Some err) # [Unbind UserClient r, Unbind Client r']"
    by (simp add: tr rebindEvents_def dn pw)
  moreover have "Unbind UserClient r \<in> set [Unbind UserClient r, Unbind Client r']"
    by simp
  ultimately have released: "\<exists>pre post r. tr = pre @ Bind UserClient userDN pw (Some err) # post
             \<and> Unbind UserClient r \<in> set post"
    by blast
  have "Search Client (searchBase config) (searchRequest username config) (Inr (userEntry # others)) \<in> set tr"
    by (simp add: tr searchEvents_def)
  with dn have matched: "\<exists>userEntry others. userDN = entry_dn userEntry
             \<and> Search Client (searchBase config) (searchRequest username config) (Inr (userEntry # others)) \<in> set tr"
    by blast
  from res pw matched released show ?thesis
    by (simp add: invalidCredentialsError_def newError_def)
qed

theorem rebind_failure_is_invalid_credentials_witness:
  "Bind UserClient ''uid=jdoe,ou=u,dc=x'' ''secret'' (Some rejected)
     \<in> set (snd (authenticateWithLdap passwordRejectedDirectory ''jdoe'' ''secret'' exampleConfig))
   \<and> fst (authenticateWithLdap passwordRejectedDirectory ''jdoe'' ''secret'' exampleConfig)
       = Inl (JsError ''Error'' (''Invalid credentials for user '' @ [quote] @ ''jdoe'' @ [quote]))
   \<and> Unbind UserClient None
     \<in> set (snd (authenticateWithLdap passwordRejectedDirectory ''jdoe'' ''secret'' exampleConfig))"
proof -
  let ?run = "authenticateWithLdap passwordRejectedDirectory ''jdoe'' ''secret'' exampleConfig"
  have run: "?run = (fst ?run, snd ?run)"
    by simp
  have refused: "Bind UserClient ''uid=jdoe,ou=u,dc=x'' ''secret'' (Some rejected) \<in> set (snd ?run)"
    by (simp add: run_password_rejected example_simps jdoeEntry_def)
  have released: "Unbind UserClient None \<in> set (snd ?run)"
    by (simp add: run_password_rejected)
  from rebind_failure_is_invalid_credentials [OF run refused] refused released show ?thesis
    by simp
qed

text \<open>
  C6. In every call the first event creates the first client and the last event
  unbinds it, and a second client, once created, is unbound later in the call. The replies to
  these two unbinds are dropped: if no bind and no search failed, the search was not empty
  and no earlier unbind of the first client was rejected, the call returns a record,
  whatever the unbind of the second client and the last unbind replied; and an error the call
  fails with is that of the service bind, of the search, of an unbind of the first client
  before the last event, or one of the two errors the program makes itself.
\<close>

theorem clients_released_cleanup_swallowed:
  assumes "authenticateWithLdap d username password config = (res, tr)"
  shows "(\<exists>rest r. tr = NewClient Client (baseClientOptions config) # rest @ [Unbind Client r])
       \<and> (\<forall>opts. NewClient UserClient opts \<in> set tr \<longrightarrow>
             (\<exists>pre post r. tr = pre @ NewClient UserClient opts # post \<and> Unbind UserClient r \<in> set post))
       \<and> ((\<forall>c bindName secret e. Bind c bindName secret (Some e) \<notin> set tr)
            \<and> (\<forall>c base opts e. Search c base opts (Inl e) \<notin> set tr)
            \<and> (\<forall>c base opts. Search c base opts (Inr []) \<notin> set tr)
            \<and> (\<forall>e. Unbind Client (Some e) \<notin> set (butlast tr))
           \<longrightarrow> (\<exists>info. res = Inr info))
       \<and> (\<forall>err. res = Inl err \<longrightarrow>
             (\<exists>bindName secret. Bind Client bindName secret (Some err) \<in> set tr)
             \<or> (\<exists>base opts. Search Client base opts (Inl err) \<in> set tr)
             \<or> (err = notFoundError username \<and> (\<exists>base opts. Search Client base opts (Inr []) \<in> set tr))
             \<or> Unbind Client (Some err) \<in> set (butlast tr)
             \<or> (err = invalidCredentialsError username
                  \<and> (\<exists>userDN e. Bind UserClient userDN password (Some e) \<in> set tr)))"
proof -
  have provenance: "\<forall>err. res = Inl err \<longrightarrow>
             (\<exists>bindName secret. Bind Client bindName secret (Some err) \<in> set tr)
             \<or> (\<exists>base opts. Search Client base opts (Inl err) \<in> set tr)
             \<or> (err = notFoundError username \<and> (\<exists>base opts. Search Client base opts (Inr []) \<in> set tr))
             \<or> Unbind Client (Some err) \<in> set (butlast tr)
             \<or> (err = invalidCredentialsError username
                  \<and> (\<exists>userDN e. Bind UserClient userDN password (Some e) \<in> set tr))"
    using failure_provenance [of d username password config _ tr] assms by blast
  have swallowed: "\<exists>info. res = Inr info"
    if "(\<forall>c bindName secret e. Bind c bindName secret (Some e) \<notin> set tr)
            \<and> (\<forall>c base opts e. Search c base opts (Inl e) \<notin> set tr)
            \<and> (\<forall>c base opts. Search c base opts (Inr []) \<notin> set tr)
            \<and> (\<forall>e. Unbind Client (Some e) \<notin> set (butlast tr))"
  proof (cases res)
    case (Inl err)
    with provenance that show ?thesis by blast
  next
    case (Inr info)
    then show ?thesis by blast
  qed
  from first_client_released [OF assms] second_client_released [OF assms] swallowed provenance
  show ?thesis
    by blast
qed

theorem clients_released_cleanup_swallowed_witness:
  "Unbind UserClient (Some socketError)
     \<in> set (snd (authenticateWithLdap flakyCloseDirectory ''jdoe'' ''secret'' exampleConfig))
   \<and> last (snd (authenticateWithLdap flakyCloseDirectory ''jdoe'' ''secret'' exampleConfig))
       = Unbind Client (Some socketError)
   \<and> (\<exists>info. fst (authenticateWithLdap flakyCloseDirectory ''jdoe'' ''secret'' exampleConfig) = Inr info)"
proof -
  let ?run = "authenticateWithLdap flakyCloseDirectory ''jdoe'' ''secret'' exampleConfig"
  have run: "?run = (fst ?run, snd ?run)"
    by simp
  have tr: "snd ?run =
      [NewClient Client (ClientOptions ''ldaps://d:636'' (Some True)),
       LogInfo ''Binding to LDAP as service account: svc'',
       Bind Client ''svc'' ''p'' None,
       LogInfo ''Searching for user in ou=u,dc=x with filter: (uid=jdoe)'',
       Search Client ''ou=u,dc=x'' (SearchOptions ''(uid=jdoe)'' [''uid'', ''mail'', ''jpegPhoto''] ''sub'')
         (Inr [jdoeEntry]),
       Unbind Client None,
       NewClient UserClient (ClientOptions ''ldaps://d:636'' (Some True)),
       Bind UserClient (entry_dn jdoeEntry) ''secret'' None,
       LogInfo (''User '' @ [quote] @ ''jdoe'' @ [quote] @ '' authenticated successfully''),
       Unbind UserClient (Some socketError),
       Unbind Client (Some socketError)]"
    by (simp add: run_flaky example_simps example_options)
  have quiet: "(\<forall>c bindName secret e. Bind c bindName secret (Some e) \<notin> set (snd ?run))
            \<and> (\<forall>c base opts e. Search c base opts (Inl e) \<notin> set (snd ?run))
            \<and> (\<forall>c base opts. Search c base opts (Inr []) \<notin> set (snd ?run))
            \<and> (\<forall>e. Unbind Client (Some e) \<notin> set (butlast (snd ?run)))"
    unfolding tr by simp
  have failing: "Unbind UserClient (Some socketError) \<in> set (snd ?run)
      \<and> last (snd ?run) = Unbind Client (Some socketError)"
    unfolding tr by simp
  from clients_released_cleanup_swallowed [OF run] quiet failing show ?thesis
    by blast
qed

text \<open>
  C7, as stated, fails. The directory returns \<^verbatim>\<open>jpegPhoto\<close> as an array holding one
  \<^verbatim>\<open>Buffer\<close>, which is not an array of strings; the attribute is requested and the call
  succeeds, yet the key is present in the returned attributes, with the empty array.
\<close>

theorem buffer_array_attribute_is_kept:
  "fst (authenticateWithLdap goodDirectory ''jdoe'' ''secret'' exampleConfig)
     = Inr \<lparr> dn = ''uid=jdoe,ou=u,dc=x'', uid = ''jdoe'', displayName = None,
             email = Some ''jdoe@x.com'', memberOf = Some [''cn=dev''],
             attributes = [(''mail'', AString ''jdoe@x.com''), (''jpegPhoto'', AStrings [])] \<rparr>
   \<and> userAttributes exampleConfig = [''mail'', ''jpegPhoto'']
   \<and> map_of (entry_attrs jdoeEntry) ''jpegPhoto'' = Some (JArray [JOther])"
proof -
  have "userAttributes exampleConfig = [''mail'', ''jpegPhoto'']"
    by (simp add: exampleConfig_def)
  moreover have "map_of (entry_attrs jdoeEntry) ''jpegPhoto'' = Some (JArray [JOther])"
    by (simp add: jdoeEntry_def)
  ultimately show ?thesis
    by (simp add: run_good example_user)
qed

text \<open>
  C7, amended. In the record of a successful call, a name is a key of the attributes exactly
  when it is requested in \<^verbatim>\<open>userAttributes\<close> and the first entry found holds a string
  or an array for it: a string is stored as it is, an array is stored with its elements that
  are not strings filtered out, and a value of any other kind leaves the key absent.
\<close>

theorem attributes_present_iff_string_or_array:
  assumes "authenticateWithLdap d username password config = (Inr info, tr)"
    and "Search Client base opts (Inr (userEntry # others)) \<in> set tr"
  shows "map_of (attributes info) attr =
           (if attr \<in> set (userAttributes config) then
              (case entry_get userEntry attr of
                 JString s \<Rightarrow> Some (AString s)
               | JArray vs \<Rightarrow> Some (AStrings (filterStrings vs))
               | JOther \<Rightarrow> None)
            else None)"
proof -
  from search_found_inv [OF assms] have "info = buildUserInfo username config userEntry"
    by auto
  then show ?thesis
    by (simp add: buildUserInfo_def map_of_extractAllAttributes)
qed

theorem attributes_present_iff_string_or_array_witness:
  "Search Client ''ou=u,dc=x'' (SearchOptions ''(uid=jdoe)'' [''uid'', ''mail'', ''jpegPhoto''] ''sub'') (Inr [jdoeEntry])
     \<in> set (snd (authenticateWithLdap goodDirectory ''jdoe'' ''secret'' exampleConfig))
   \<and> map_of (attributes (buildUserInfo ''jdoe'' exampleConfig jdoeEntry)) ''mail'' = Some (AString ''jdoe@x.com'')
   \<and> map_of (attributes (buildUserInfo ''jdoe'' exampleConfig jdoeEntry)) ''jpegPhoto'' = Some (AStrings [])
   \<and> map_of (attributes (buildUserInfo ''jdoe'' exampleConfig jdoeEntry)) ''memberOf'' = None"
proof -
  let ?run = "authenticateWithLdap goodDirectory ''jdoe'' ''secret'' exampleConfig"
  have run: "?run = (Inr (buildUserInfo ''jdoe'' exampleConfig jdoeEntry), snd ?run)"
    by (simp add: run_good)
  have found: "Search Client ''ou=u,dc=x'' (SearchOptions ''(uid=jdoe)'' [''uid'', ''mail'', ''jpegPhoto''] ''sub'') (Inr [jdoeEntry])
      \<in> set (snd ?run)"
    by (simp add: run_good example_simps)
  from attributes_present_iff_string_or_array [OF run found, of "''mail''"]
    attributes_present_iff_string_or_array [OF run found, of "''jpegPhoto''"]
    attributes_present_iff_string_or_array [OF run found, of "''memberOf''"]
    found
  show ?thesis
    by (simp add: entry_get_def jdoeEntry_def exampleConfig_def)
qed

text \<open>
  C8. Whenever the search returned more than one entry, exactly one warning is logged in the
  call; every bind of the second client is for the DN of the first entry with the submitted
  password, and a returned record is the one built from the first entry; unless the unbind
  of the first client before the re-bind is rejected, that re-bind is made; and the call
  fails only with the error of that unbind or, when the re-bind is rejected, with the
  invalid-credentials error: never because several entries matched.
\<close>

theorem multiple_matches_warn_once_use_first:
  assumes "authenticateWithLdap d username password config = (res, tr)"
    and "Search Client base opts (Inr (userEntry # other # others)) \<in> set tr"
  shows "warnings tr = [''Multiple users found for '' @ [quote] @ username @ [quote] @ '', using first result'']
       \<and> (\<forall>userDN pw r. Bind UserClient userDN pw r \<in> set tr \<longrightarrow>
             userDN = entry_dn userEntry \<and> pw = password)
       \<and> (\<forall>info. res = Inr info \<longrightarrow> info = buildUserInfo username config userEntry)
       \<and> ((\<forall>err. Unbind Client (Some err) \<notin> set (butlast tr)) \<longrightarrow>
             (\<exists>r. Bind UserClient (entry_dn userEntry) password r \<in> set tr))
       \<and> (\<forall>err. res = Inl err \<longrightarrow>
             Unbind Client (Some err) \<in> set (butlast tr)
             \<or> (err = invalidCredentialsError username
                 \<and> (\<exists>e. Bind UserClient (entry_dn userEntry) password (Some e) \<in> set tr)))"
  using search_found_inv [OF assms]
  by (elim disjE exE conjE)
     (simp_all add: shape_simps warnings_append butlast_append serviceBindConfigured_def)


theorem multiple_matches_warn_once_use_first_witness:
  "Search Client ''ou=u,dc=x'' (SearchOptions ''(uid=jdoe)'' [''uid'', ''mail'', ''jpegPhoto''] ''sub'')
       (Inr [jdoeEntry, jdoe2Entry])
     \<in> set (snd (authenticateWithLdap crowdedDirectory ''jdoe'' ''secret'' exampleConfig))
   \<and> warnings (snd (authenticateWithLdap crowdedDirectory ''jdoe'' ''secret'' exampleConfig))
       = [''Multiple users found for '' @ [quote] @ ''jdoe'' @ [quote] @ '', using first result'']
   \<and> Bind UserClient ''uid=jdoe,ou=u,dc=x'' ''secret'' None
     \<in> set (snd (authenticateWithLdap crowdedDirectory ''jdoe'' ''secret'' exampleConfig))
   \<and> fst (authenticateWithLdap crowdedDirectory ''jdoe'' ''secret'' exampleConfig)
       = Inr (buildUserInfo ''jdoe'' exampleConfig jdoeEntry)"
proof -
  let ?run = "authenticateWithLdap crowdedDirectory ''jdoe'' ''secret'' exampleConfig"
  have run: "?run = (fst ?run, snd ?run)"
    by simp
  have found: "Search Client ''ou=u,dc=x'' (SearchOptions ''(uid=jdoe)'' [''uid'', ''mail'', ''jpegPhoto''] ''sub'')
       (Inr [jdoeEntry, jdoe2Entry]) \<in> set (snd ?run)"
    by (simp add: run_crowded example_simps)
  have bound: "Bind UserClient ''uid=jdoe,ou=u,dc=x'' ''secret'' None \<in> set (snd ?run)"
    by (simp add: run_crowded example_simps jdoeEntry_def)
  have ok: "fst ?run = Inr (buildUserInfo ''jdoe'' exampleConfig jdoeEntry)"
    by (simp add: run_crowded)
  from multiple_matches_warn_once_use_first [OF run found] found bound ok show ?thesis
    by simp
qed

text \<open>
  C9. When the call returns a record and the first entry found has a \<^verbatim>\<open>memberOf\<close>
  that is a single string, the \<^verbatim>\<open>memberOf\<close> of the record is the list of just that
  string.
\<close>

theorem memberOf_string_becomes_singleton:
  assumes "authenticateWithLdap d username password config = (Inr info, tr)"
    and "Search Client base opts (Inr (userEntry # others)) \<in> set tr"
    and "map_of (entry_attrs userEntry) ''memberOf'' = Some (JString g)"
  shows "memberOf info = Some [g]"
proof -
  from search_found_inv [OF assms(1,2)] have "info = buildUserInfo username config userEntry"
    by auto
  with assms(3) show ?thesis
    by (simp add: buildUserInfo_def extractStringArrayAttribute_def entry_get_def)
qed

theorem memberOf_string_becomes_singleton_witness:
  "Search Client ''ou=u,dc=x'' (SearchOptions ''(uid=jdoe)'' [''uid'', ''mail'', ''jpegPhoto''] ''sub'') (Inr [jdoeEntry])
     \<in> set (snd (authenticateWithLdap goodDirectory ''jdoe'' ''secret'' exampleConfig))
   \<and> map_of (entry_attrs jdoeEntry) ''memberOf'' = Some (JString ''cn=dev'')
   \<and> map_sum id memberOf (fst (authenticateWithLdap goodDirectory ''jdoe'' ''secret'' exampleConfig))
       = Inr (Some [''cn=dev''])"
proof -
  let ?run = "authenticateWithLdap goodDirectory ''jdoe'' ''secret'' exampleConfig"
  have run: "?run = (Inr (buildUserInfo ''jdoe'' exampleConfig jdoeEntry), snd ?run)"
    by (simp add: run_good)
  have found: "Search Client ''ou=u,dc=x'' (SearchOptions ''(uid=jdoe)'' [''uid'', ''mail'', ''jpegPhoto''] ''sub'') (Inr [jdoeEntry])
      \<in> set (snd ?run)"
    by (simp add: run_good example_simps)
  have single: "map_of (entry_attrs jdoeEntry) ''memberOf'' = Some (JString ''cn=dev'')"
    by (simp add: jdoeEntry_def)
  from memberOf_string_becomes_singleton [OF run found single] found single show ?thesis
    by (simp add: run_good)
qed

text \<open>
  C10. A bind of the first client occurs only for a configuration that has both
  \<^verbatim>\<open>bindDN\<close> and \<^verbatim>\<open>bindCredentials\<close>, and uses them. When either is missing,
  the call makes no bind other than the re-bind of the user, and goes from creating the
  client straight to the search: its first three events are the new client, the notice of
  the search and the search itself.
\<close>

theorem service_bind_only_when_both_set:
  assumes "authenticateWithLdap d username password config = (res, tr)"
  shows "(\<forall>bindName secret r. Bind Client bindName secret r \<in> set tr \<longrightarrow>
            bindDN config = Some bindName \<and> bindCredentials config = Some secret)
       \<and> (bindDN config = None \<or> bindCredentials config = None \<longrightarrow>
            (\<forall>c bindName secret r. Bind c bindName secret r \<in> set tr \<longrightarrow> c = UserClient)
            \<and> (\<exists>r. take 3 tr =
                  [NewClient Client (baseClientOptions config),
                   LogInfo (''Searching for user in '' @ searchBase config @ '' with filter: ''
                              @ buildFilter (searchFilter config) username),
                   Search Client (searchBase config)
                     (SearchOptions (buildFilter (searchFilter config) username)
                        (usernameAttribute config # userAttributes config) ''sub'') r]))"
proof -
  have only: "\<forall>bindName secret r. Bind Client bindName secret r \<in> set tr \<longrightarrow>
            bindDN config = Some bindName \<and> bindCredentials config = Some secret"
    using service_bind_inv [OF assms] by blast
  have skipped: "(\<forall>c bindName secret r. Bind c bindName secret r \<in> set tr \<longrightarrow> c = UserClient)
            \<and> (\<exists>r. take 3 tr =
                  [NewClient Client (baseClientOptions config),
                   LogInfo (''Searching for user in '' @ searchBase config @ '' with filter: ''
                              @ buildFilter (searchFilter config) username),
                   Search Client (searchBase config)
                     (SearchOptions (buildFilter (searchFilter config) username)
                        (usernameAttribute config # userAttributes config) ''sub'') r])"
    if "bindDN config = None \<or> bindCredentials config = None"
  proof -
    from that have off: "\<not> serviceBindConfigured config"
      by (auto simp: serviceBindConfigured_def)
    show ?thesis
      using assms off
      by (cases rule: run_cases [of config d username password])
         (auto simp: shape_simps split: if_splits)
  qed
  from only skipped show ?thesis
    by blast
qed

theorem service_bind_only_when_both_set_witness:
  "bindDN halfConfig = Some ''svc'' \<and> bindCredentials halfConfig = None
   \<and> (\<forall>bindName secret r. Bind Client bindName secret r
          \<notin> set (snd (authenticateWithLdap goodDirectory ''jdoe'' ''secret'' halfConfig)))
   \<and> (\<exists>info. fst (authenticateWithLdap goodDirectory ''jdoe'' ''secret'' halfConfig) = Inr info)"
proof -
  let ?run = "authenticateWithLdap goodDirectory ''jdoe'' ''secret'' halfConfig"
  have run: "?run = (fst ?run, snd ?run)"
    by simp
  have half: "bindDN halfConfig = Some ''svc'' \<and> bindCredentials halfConfig = None"
    by (simp add: halfConfig_def exampleConfig_def)
  have ok: "\<exists>info. fst ?run = Inr info"
    by (simp add: run_half)
  from service_bind_only_when_both_set [OF run] half ok show ?thesis
    by auto
qed

end
